theory Spec2Isabelle
  imports Complex_Main "HOL-Library.Multiset"
begin

section \<open>Data model\<close>

text \<open>
  The repository is a Python program. Its exceptions are values: every call that can raise
  returns \<open>py_exception + 'a\<close>, with \<open>Inl\<close> for the raised exception. All handlers of
  the program are \<^verbatim>\<open>except Exception\<close>, so one constructor carrying the message is
  enough.
\<close>

datatype py_exception = Exception string

text \<open>
  \<^verbatim>\<open>langchain.schema.Document\<close>: the text and a metadata dictionary. The program only
  stores and reads the key \<^verbatim>\<open>"source"\<close>, with a file name as its value.
\<close>

record document =
  page_content :: string
  metadata :: "string \<rightharpoonup> string"

text \<open>
  The dictionary built for every search hit in \<^verbatim>\<open>rank_resumes\<close>, with its three fixed
  keys. Scores are Python floats; they are modelled as reals, so rounding and NaN are outside
  the model.
\<close>

record candidate_info =
  source :: string
  score :: real
  content :: string

text \<open>
  The FAISS vector store is a library object. The program uses one method of it,
  \<^verbatim>\<open>similarity_search_with_score(query, k=top_k)\<close>, which embeds the query and searches
  the index: it returns (document, distance) pairs or raises. The store is therefore taken as
  that method.
\<close>

type_synonym vector_store = "string \<Rightarrow> int \<Rightarrow> py_exception + (document \<times> real) list"

section \<open>ranker.py\<close>

text \<open>\<^verbatim>\<open>doc.metadata.get("source", "Unknown")\<close>\<close>

definition metadata_source :: "document \<Rightarrow> string" where
  "metadata_source doc = (case metadata doc ''source'' of None \<Rightarrow> ''Unknown'' | Some s \<Rightarrow> s)"

text \<open>The body of the \<^verbatim>\<open>for doc, score in results_with_scores\<close> loop.\<close>

definition make_candidate :: "document \<times> real \<Rightarrow> candidate_info" where
  "make_candidate r =
     \<lparr>source = metadata_source (fst r), score = 1 - snd r, content = page_content (fst r)\<rparr>"

text \<open>
  \<^verbatim>\<open>ranked_candidates.sort(key=lambda x: x["score"], reverse=True)\<close>. Python's sort is
  stable, also with \<^verbatim>\<open>reverse=True\<close>: entries with equal keys keep their order. That
  is the stable ascending sort on the negated key.
\<close>

definition sort_by_score_desc :: "candidate_info list \<Rightarrow> candidate_info list" where
  "sort_by_score_desc cs = sort_key (\<lambda>c. - score c) cs"

text \<open>
  \<^verbatim>\<open>rank_resumes(vector_store, job_description, top_k)\<close>. The guard on the empty job
  description returns the empty list; the \<^verbatim>\<open>try\<close> block queries the store, builds
  one entry per hit and sorts; the \<^verbatim>\<open>except Exception\<close> handler returns the empty
  list. Log calls have no effect on the result and are left out.
\<close>

definition rank_resumes ::
  "vector_store \<Rightarrow> string \<Rightarrow> int \<Rightarrow> py_exception + candidate_info list" where
  "rank_resumes vector_store job_description top_k =
     (if job_description = [] then Inr []
      else (case vector_store job_description top_k of
              Inl e \<Rightarrow> Inr []
            | Inr results_with_scores \<Rightarrow>
                Inr (sort_by_score_desc (map make_candidate results_with_scores))))"

section \<open>embeddings.py\<close>

text \<open>
  What the program reads from outside: the directory listing and the file test of
  \<^verbatim>\<open>os\<close>, and the two parsing libraries. \<^verbatim>\<open>fitz.open\<close> with
  \<^verbatim>\<open>page.get_text()\<close> gives the texts of the pages of a PDF,
  \<^verbatim>\<open>docx.Document\<close> the texts of the paragraphs of a DOCX file; each may raise.
\<close>

record environment =
  listdir :: "string \<Rightarrow> py_exception + string list"
  isfile :: "string \<Rightarrow> bool"
  pdf_page_texts :: "string \<Rightarrow> py_exception + string list"
  docx_paragraph_texts :: "string \<Rightarrow> py_exception + string list"

text \<open>\<^verbatim>\<open>str.endswith\<close>\<close>

definition endswith :: "string \<Rightarrow> string \<Rightarrow> bool" where
  "endswith s suffix =
     (length suffix \<le> length s \<and> drop (length s - length suffix) s = suffix)"

text \<open>\<^verbatim>\<open>sep.join(parts)\<close>\<close>

fun str_join :: "string \<Rightarrow> string list \<Rightarrow> string" where
  "str_join sep [] = []"
| "str_join sep [x] = x"
| "str_join sep (x # y # ys) = x @ sep @ str_join sep (y # ys)"

text \<open>\<^verbatim>\<open>os.path.join(folder_path, filename)\<close> on POSIX, for two components.\<close>

definition path_join :: "string \<Rightarrow> string \<Rightarrow> string" where
  "path_join a b =
     (if b \<noteq> [] \<and> hd b = CHR ''/'' then b
      else if a = [] \<or> last a = CHR ''/'' then a @ b
      else a @ ''/'' @ b)"

text \<open>The \<^verbatim>\<open>try\<close> block of \<^verbatim>\<open>extract_text_from_file\<close>.\<close>

definition extract_text_try :: "environment \<Rightarrow> string \<Rightarrow> py_exception + string" where
  "extract_text_try env file_path =
     (if endswith file_path ''.pdf'' then
        (case pdf_page_texts env file_path of
           Inl e \<Rightarrow> Inl e
         | Inr pages \<Rightarrow> Inr (concat pages))
      else if endswith file_path ''.docx'' then
        (case docx_paragraph_texts env file_path of
           Inl e \<Rightarrow> Inl e
         | Inr paras \<Rightarrow> Inr (str_join [CHR 0x0A] paras))
      else Inr [])"

text \<open>
  \<^verbatim>\<open>extract_text_from_file(file_path)\<close>: the \<^verbatim>\<open>try\<close> block under its
  \<^verbatim>\<open>except Exception\<close> handler, which returns the empty string.
\<close>

definition extract_text_from_file :: "environment \<Rightarrow> string \<Rightarrow> py_exception + string" where
  "extract_text_from_file env file_path =
     (case extract_text_try env file_path of
        Inl e \<Rightarrow> Inr []
      | Inr text \<Rightarrow> Inr text)"

text \<open>
  The \<^verbatim>\<open>for filename in os.listdir(folder_path)\<close> loop of
  \<^verbatim>\<open>get_documents_from_folder\<close>, with the list \<^verbatim>\<open>documents\<close> as accumulator.
  An exception of the call to \<^verbatim>\<open>extract_text_from_file\<close> would leave the loop.
\<close>

fun collect_documents ::
  "environment \<Rightarrow> string \<Rightarrow> string list \<Rightarrow> document list \<Rightarrow> py_exception + document list" where
  "collect_documents env folder_path [] documents = Inr documents"
| "collect_documents env folder_path (filename # rest) documents =
     (let file_path = path_join folder_path filename in
      if isfile env file_path then
        (case extract_text_from_file env file_path of
           Inl e \<Rightarrow> Inl e
         | Inr text \<Rightarrow>
             if text \<noteq> [] then
               collect_documents env folder_path rest
                 (documents @ [\<lparr>page_content = text, metadata = [''source'' \<mapsto> filename]\<rparr>])
             else collect_documents env folder_path rest documents)
      else collect_documents env folder_path rest documents)"

text \<open>\<^verbatim>\<open>get_documents_from_folder(folder_path)\<close>; \<^verbatim>\<open>os.listdir\<close> is not guarded.\<close>

definition get_documents_from_folder ::
  "environment \<Rightarrow> string \<Rightarrow> py_exception + document list" where
  "get_documents_from_folder env folder_path =
     (case listdir env folder_path of
        Inl e \<Rightarrow> Inl e
      | Inr filenames \<Rightarrow> collect_documents env folder_path filenames [])"

text \<open>
  \<^verbatim>\<open>create_vector_store(documents)\<close>. The three library calls are parameters: the
  splitter (constructed with chunk size 1000 and overlap 200, then applied to the documents),
  the loading of the embedding model by name, and \<^verbatim>\<open>FAISS.from_documents\<close>. The
  handler logs and re-raises, so an exception of any step is the result.
\<close>

definition create_vector_store ::
  "(int \<Rightarrow> int \<Rightarrow> document list \<Rightarrow> py_exception + document list) \<Rightarrow>
   (string \<Rightarrow> py_exception + 'e) \<Rightarrow>
   (document list \<Rightarrow> 'e \<Rightarrow> py_exception + 'v) \<Rightarrow>
   document list \<Rightarrow> py_exception + 'v" where
  "create_vector_store split_documents load_embeddings from_documents documents =
     (case split_documents 1000 200 documents of
        Inl e \<Rightarrow> Inl e
      | Inr split_docs \<Rightarrow>
          (case load_embeddings ''sentence-transformers/all-MiniLM-L6-v2'' of
             Inl e \<Rightarrow> Inl e
           | Inr embeddings \<Rightarrow>
               (case from_documents split_docs embeddings of
                  Inl e \<Rightarrow> Inl e
                | Inr vector_store \<Rightarrow> Inr vector_store)))"

section \<open>The vector index of the specification\<close>

text \<open>
  Modelled from the spec: the Vector Index component (\<open>build\<close> and \<open>query\<close>). The
  program has no index code of its own: it calls the FAISS library, whose code is not part
  of the sources. The specification gives the contract that is written out here: \<open>build\<close>
  fails with \<open>EmptyCorpusError\<close> on no entries; \<open>query\<close> returns the entries with their
  distances, ascending by distance, ties in insertion order, and \<open>k\<close> is clamped to the
  number of entries. The distance metric is a parameter.
\<close>

datatype index_error = EmptyCorpusError

record 'c embedded_chunk =
  chunk :: 'c
  vector :: "real list"

text \<open>
  Modelled from the spec: \<open>build(entries)\<close>, which fails with \<open>EmptyCorpusError\<close> if
  there are no entries; the index is the sequence of entries in insertion order.
\<close>

definition build :: "'c embedded_chunk list \<Rightarrow> index_error + 'c embedded_chunk list" where
  "build entries = (if entries = [] then Inl EmptyCorpusError else Inr entries)"

text \<open>
  Modelled from the spec: \<open>query(vector, k)\<close>, the entries with their distances to the
  vector, ascending by distance with ties in insertion order (a stable sort), \<open>k\<close> clamped
  to the number of entries.
\<close>

definition query ::
  "(real list \<Rightarrow> real list \<Rightarrow> real) \<Rightarrow> 'c embedded_chunk list \<Rightarrow> real list \<Rightarrow> nat \<Rightarrow>
   ('c embedded_chunk \<times> real) list" where
  "query distance index v k =
     take (min k (length index)) (sort_key snd (map (\<lambda>e. (e, distance (vector e) v)) index))"

section \<open>Concrete inputs\<close>

text \<open>
  A store holding three chunks, two of them from the same resume; the third is far from every
  query (distance 3/2). It returns the first \<open>k\<close> of them for any query.
\<close>

definition example_hits :: "(document \<times> real) list" where
  "example_hits =
     [(\<lparr>page_content = ''Machine learning'', metadata = [''source'' \<mapsto> ''a.pdf'']\<rparr>, 1 / 2),
      (\<lparr>page_content = ''Java and Spring'', metadata = [''source'' \<mapsto> ''b.docx'']\<rparr>, 3 / 2),
      (\<lparr>page_content = ''Python and Django'', metadata = [''source'' \<mapsto> ''a.pdf'']\<rparr>, 1 / 4)]"

definition example_store :: vector_store where
  "example_store q k = Inr (take (nat k) example_hits)"

text \<open>A store whose search raises.\<close>

definition failing_store :: vector_store where
  "failing_store q k = Inl (Exception ''index unavailable'')"

text \<open>
  A folder with a readable PDF, a text file, a PDF that cannot be opened, a DOCX file, an
  empty DOCX file and a subdirectory.
\<close>

definition example_env :: environment where
  "example_env =
     \<lparr>listdir = (\<lambda>p. if p = ''cv'' then Inr [''a.pdf'', ''n.txt'', ''x.pdf'', ''b.docx'', ''e.docx'', ''old'']
                      else Inl (Exception ''no such directory'')),
      isfile = (\<lambda>p. p \<noteq> ''cv/old''),
      pdf_page_texts = (\<lambda>p. if p = ''cv/a.pdf'' then Inr [''Python '', ''Django'']
                             else Inl (Exception ''cannot open'')),
      docx_paragraph_texts = (\<lambda>p. if p = ''cv/b.docx'' then Inr [''Java'', ''Spring'']
                                   else Inr [])\<rparr>"

text \<open>Two index entries and the squared Euclidean distance, for the index of the specification.\<close>

definition example_entries :: "string embedded_chunk list" where
  "example_entries =
     [\<lparr>chunk = ''Python and Django'', vector = [1, 0]\<rparr>,
      \<lparr>chunk = ''Java and Spring'', vector = [0, 1]\<rparr>]"

definition squared_l2 :: "real list \<Rightarrow> real list \<Rightarrow> real" where
  "squared_l2 a b = sum_list (map (\<lambda>(x, y). (x - y) * (x - y)) (zip a b))"

section \<open>Properties of the ranker\<close>

subsection \<open>Auxiliary facts\<close>

lemma rank_resumes_hits:
  "job_description \<noteq> [] \<Longrightarrow> vector_store job_description top_k = Inr hits \<Longrightarrow>
   rank_resumes vector_store job_description top_k =
     Inr (sort_by_score_desc (map make_candidate hits))"
  by (simp add: rank_resumes_def)

lemma rank_resumes_cases:
  "rank_resumes vector_store job_description top_k = Inr r \<Longrightarrow>
   r = [] \<or> (\<exists>hits. r = sort_by_score_desc (map make_candidate hits))"
  by (auto simp: rank_resumes_def split: if_splits sum.splits)

lemma mset_sort_by_score_desc: "mset (sort_by_score_desc cs) = mset cs"
  by (simp add: sort_by_score_desc_def)

lemma set_sort_by_score_desc: "set (sort_by_score_desc cs) = set cs"
  by (simp add: sort_by_score_desc_def)

lemma length_sort_by_score_desc: "length (sort_by_score_desc cs) = length cs"
  by (simp add: sort_by_score_desc_def)

lemma sorted_desc_nth:
  "i + 1 < length (sort_by_score_desc cs) \<Longrightarrow>
   score (sort_by_score_desc cs ! (i + 1)) \<le> score (sort_by_score_desc cs ! i)"
proof -
  assume a: "i + 1 < length (sort_by_score_desc cs)"
  let ?r = "sort_by_score_desc cs"
  have "sorted (map (\<lambda>c. - score c) ?r)"
    by (simp add: sort_by_score_desc_def)
  moreover have "i + 1 < length (map (\<lambda>c. - score c) ?r)" using a by simp
  ultimately have "map (\<lambda>c. - score c) ?r ! i \<le> map (\<lambda>c. - score c) ?r ! (i + 1)"
    by (intro sorted_nth_mono) simp_all
  then show ?thesis using a by simp
qed

lemma example_store_hits: "example_store ''python developer'' 5 = Inr example_hits"
  by (simp add: example_store_def example_hits_def)

lemma example_ranking:
  "rank_resumes example_store ''python developer'' 5 =
   Inr [\<lparr>source = ''a.pdf'', score = 3 / 4, content = ''Python and Django''\<rparr>,
        \<lparr>source = ''a.pdf'', score = 1 / 2, content = ''Machine learning''\<rparr>,
        \<lparr>source = ''b.docx'', score = - 1 / 2, content = ''Java and Spring''\<rparr>]"
  by (simp add: rank_resumes_def example_store_def example_hits_def sort_by_score_desc_def
      make_candidate_def metadata_source_def)

subsection \<open>One entry per source\<close>

text \<open>
  Claim C1 says that no two entries of a result of \<open>rank_resumes\<close> share a source, the
  entry kept for a source being its best one. The function keeps every hit of the store: on a
  store that returns two chunks of \<^verbatim>\<open>a.pdf\<close>, the result has two entries of that
  source.
\<close>

theorem rank_resumes_duplicate_source_counterexample:
  "rank_resumes example_store ''python developer'' 5 =
   Inr [\<lparr>source = ''a.pdf'', score = 3 / 4, content = ''Python and Django''\<rparr>,
        \<lparr>source = ''a.pdf'', score = 1 / 2, content = ''Machine learning''\<rparr>,
        \<lparr>source = ''b.docx'', score = - 1 / 2, content = ''Java and Spring''\<rparr>]"
  by (rule example_ranking)

text \<open>
  Claim C1, as amended: for a non-empty job description on which the search of the store
  succeeds, \<open>rank_resumes\<close> returns one entry per hit. The sources of the result are the
  sources of the hits, each as often as it occurs among the hits, so the result has one entry
  per source exactly when the hits have pairwise distinct sources.
\<close>

theorem rank_resumes_one_entry_per_hit:
  assumes "job_description \<noteq> []"
    and "vector_store job_description top_k = Inr hits"
  shows "\<exists>r. rank_resumes vector_store job_description top_k = Inr r \<and>
             length r = length hits \<and>
             mset (map source r) = mset (map metadata_source (map fst hits)) \<and>
             distinct (map source r) = distinct (map metadata_source (map fst hits))"
proof -
  let ?cs = "map make_candidate hits"
  let ?r = "sort_by_score_desc ?cs"
  have src: "map source ?cs = map metadata_source (map fst hits)"
    by (simp add: make_candidate_def comp_def)
  have "mset ?r = mset ?cs"
    by (rule mset_sort_by_score_desc)
  then have "image_mset source (mset ?r) = image_mset source (mset ?cs)"
    by (rule arg_cong)
  then have "mset (map source ?r) = mset (map source ?cs)"
    by (simp only: mset_map)
  then have m: "mset (map source ?r) = mset (map metadata_source (map fst hits))"
    by (simp only: src)
  have d: "distinct (map source ?r) = distinct (map metadata_source (map fst hits))"
    using m by (rule mset_eq_imp_distinct_iff)
  have l: "length ?r = length hits"
    by (simp add: length_sort_by_score_desc)
  show ?thesis
    using rank_resumes_hits [of job_description vector_store top_k hits] assms m d l by blast
qed

theorem rank_resumes_one_entry_per_hit_witness:
  "\<exists>r. rank_resumes example_store ''python developer'' 5 = Inr r \<and>
       length r = 3 \<and>
       mset (map source r) = {#''a.pdf'', ''b.docx'', ''a.pdf''#} \<and>
       \<not> distinct (map source r)"
proof -
  have h1: "''python developer'' \<noteq> []" by simp
  have h2: "example_store ''python developer'' 5 = Inr example_hits"
    by (rule example_store_hits)
  from rank_resumes_one_entry_per_hit [of "''python developer''" example_store 5 example_hits] h1 h2
  obtain r where r: "rank_resumes example_store ''python developer'' 5 = Inr r"
      "length r = length example_hits"
      "mset (map source r) = mset (map metadata_source (map fst example_hits))"
      "distinct (map source r) = distinct (map metadata_source (map fst example_hits))"
    by blast
  have "length r = 3" using r(2) by (simp add: example_hits_def)
  moreover have "mset (map source r) = {#''a.pdf'', ''b.docx'', ''a.pdf''#}"
    using r(3) by (simp add: example_hits_def metadata_source_def)
  moreover have "\<not> distinct (map source r)"
    using r(4) by (simp add: example_hits_def metadata_source_def)
  ultimately show ?thesis using r(1) by blast
qed

subsection \<open>The empty job description\<close>

text \<open>
  Claim C2 says that \<open>rank_resumes\<close> fails with an error on the empty query text. Its guard
  returns the empty list instead.
\<close>

theorem rank_resumes_empty_query_counterexample:
  "rank_resumes example_store [] 5 = Inr []"
  by (simp add: rank_resumes_def)

text \<open>
  Claim C2, as amended: for every vector store and every \<open>top_k\<close>, \<open>rank_resumes\<close> with
  the empty job description returns the empty list as its result, whatever the store would
  answer; it raises nothing.
\<close>

theorem rank_resumes_empty_query:
  "rank_resumes vector_store [] top_k = Inr []"
  by (simp add: rank_resumes_def)

subsection \<open>Failures of the search\<close>

text \<open>
  Claim C3 says that a failure of the embedding step or of the index query inside ranking
  reaches the caller as an error. The handler of \<open>rank_resumes\<close> turns it into the empty
  list.
\<close>

theorem rank_resumes_swallows_failure_counterexample:
  "rank_resumes failing_store ''python developer'' 5 = Inr []"
  by (simp add: rank_resumes_def failing_store_def)

text \<open>
  Claim C3, as amended: when the search of the store (query embedding or index query) raises
  inside \<open>rank_resumes\<close>, the exception is caught there and the empty list is returned as
  the result. A failure to load the embedding model inside \<open>create_vector_store\<close>, after
  the documents were split, does reach the caller of \<open>create_vector_store\<close>.
\<close>

theorem rank_resumes_swallows_failure:
  assumes "job_description \<noteq> []"
    and "vector_store job_description top_k = Inl e"
    and "split_documents 1000 200 documents = Inr split_docs"
    and "load_embeddings ''sentence-transformers/all-MiniLM-L6-v2'' = Inl e'"
  shows "rank_resumes vector_store job_description top_k = Inr [] \<and>
         create_vector_store split_documents load_embeddings from_documents documents = Inl e'"
  using assms by (simp add: rank_resumes_def create_vector_store_def)

theorem rank_resumes_swallows_failure_witness:
  "rank_resumes failing_store ''python developer'' 5 = Inr [] \<and>
   create_vector_store (\<lambda>chunk_size overlap ds. Inr ds)
     (\<lambda>name. Inl (Exception ''model unavailable'')) (\<lambda>ds (emb :: unit). Inr ds) [] =
     (Inl (Exception ''model unavailable'') :: py_exception + document list)"
proof -
  have h1: "''python developer'' \<noteq> []" by simp
  have h2: "failing_store ''python developer'' 5 = Inl (Exception ''index unavailable'')"
    by (simp add: failing_store_def)
  have h3: "(\<lambda>chunk_size overlap ds. Inr ds) (1000::int) (200::int) ([]::document list) =
              (Inr [] :: py_exception + document list)"
    by simp
  have h4: "(\<lambda>name. Inl (Exception ''model unavailable''))
              ''sentence-transformers/all-MiniLM-L6-v2'' =
              (Inl (Exception ''model unavailable'') :: py_exception + unit)"
    by simp
  show ?thesis
    using rank_resumes_swallows_failure
      [of "''python developer''" failing_store 5 "Exception ''index unavailable''"
         "\<lambda>chunk_size overlap ds. Inr ds" "[]" "[]"
         "\<lambda>name. Inl (Exception ''model unavailable'')" "Exception ''model unavailable''"
         "\<lambda>ds (emb :: unit). Inr ds"] h1 h2 h3 h4
    by simp
qed

subsection \<open>Order of the result\<close>

text \<open>
  Claim C4: in every list returned by \<open>rank_resumes\<close>, the scores are in descending order:
  the score at index \<open>i + 1\<close> is at most the score at index \<open>i\<close>.
\<close>

theorem rank_resumes_descending:
  assumes "rank_resumes vector_store job_description top_k = Inr r"
    and "i + 1 < length r"
  shows "score (r ! (i + 1)) \<le> score (r ! i)"
proof -
  from rank_resumes_cases [OF assms(1)] assms(2)
  obtain hits where "r = sort_by_score_desc (map make_candidate hits)" by auto
  with assms(2) show ?thesis by (simp only: sorted_desc_nth)
qed

theorem rank_resumes_descending_witness:
  "rank_resumes example_store ''python developer'' 5 =
     Inr [\<lparr>source = ''a.pdf'', score = 3 / 4, content = ''Python and Django''\<rparr>,
          \<lparr>source = ''a.pdf'', score = 1 / 2, content = ''Machine learning''\<rparr>,
          \<lparr>source = ''b.docx'', score = - 1 / 2, content = ''Java and Spring''\<rparr>] \<and>
   score ([\<lparr>source = ''a.pdf'', score = 3 / 4, content = ''Python and Django''\<rparr>,
           \<lparr>source = ''a.pdf'', score = 1 / 2, content = ''Machine learning''\<rparr>,
           \<lparr>source = ''b.docx'', score = - 1 / 2, content = ''Java and Spring''\<rparr>] ! (1 + 1))
     \<le> score ([\<lparr>source = ''a.pdf'', score = 3 / 4, content = ''Python and Django''\<rparr>,
           \<lparr>source = ''a.pdf'', score = 1 / 2, content = ''Machine learning''\<rparr>,
           \<lparr>source = ''b.docx'', score = - 1 / 2, content = ''Java and Spring''\<rparr>] ! 1)"
proof -
  have h2: "1 + 1 < length
       [\<lparr>source = ''a.pdf'', score = 3 / 4, content = ''Python and Django''\<rparr>,
        \<lparr>source = ''a.pdf'', score = 1 / 2, content = ''Machine learning''\<rparr>,
        \<lparr>source = ''b.docx'', score = - 1 / 2, content = ''Java and Spring''\<rparr>]"
    by simp
  from rank_resumes_descending [OF example_ranking h2] example_ranking
  show ?thesis by blast
qed

subsection \<open>Scores\<close>

text \<open>
  Claim C5: for every (chunk, distance) pair that the search returns, the result of
  \<open>rank_resumes\<close> has the entry of that chunk with the score \<open>1 - distance\<close>. The sign
  of the score plays no role: an entry with a negative score is in the result like any other,
  and the result has as many entries as there are hits.
\<close>

theorem rank_resumes_score:
  assumes "job_description \<noteq> []"
    and "vector_store job_description top_k = Inr hits"
    and "(doc, d) \<in> set hits"
  shows "\<exists>r. rank_resumes vector_store job_description top_k = Inr r \<and>
             \<lparr>source = metadata_source doc, score = 1 - d, content = page_content doc\<rparr> \<in> set r \<and>
             length r = length hits"
proof -
  have "make_candidate (doc, d) \<in> set (map make_candidate hits)"
    using assms(3) by (simp only: set_map) (rule imageI)
  then have "\<lparr>source = metadata_source doc, score = 1 - d, content = page_content doc\<rparr>
               \<in> set (sort_by_score_desc (map make_candidate hits))"
    by (simp add: set_sort_by_score_desc make_candidate_def)
  then show ?thesis
    using rank_resumes_hits [of job_description vector_store top_k hits] assms(1,2)
    by (simp add: length_sort_by_score_desc)
qed

theorem rank_resumes_score_witness:
  "\<exists>r. rank_resumes example_store ''python developer'' 5 = Inr r \<and>
       \<lparr>source = ''b.docx'', score = - 1 / 2, content = ''Java and Spring''\<rparr> \<in> set r \<and>
       length r = 3"
proof -
  have h1: "''python developer'' \<noteq> []" by simp
  have h3: "(\<lparr>page_content = ''Java and Spring'', metadata = [''source'' \<mapsto> ''b.docx'']\<rparr>, 3 / 2)
              \<in> set example_hits"
    by (simp add: example_hits_def)
  from rank_resumes_score [of "''python developer''" example_store 5 example_hits _ "3 / 2"]
      h1 example_store_hits h3
  obtain r where r: "rank_resumes example_store ''python developer'' 5 = Inr r"
      "\<lparr>source = metadata_source \<lparr>page_content = ''Java and Spring'',
           metadata = [''source'' \<mapsto> ''b.docx'']\<rparr>, score = 1 - 3 / 2,
         content = page_content \<lparr>page_content = ''Java and Spring'',
           metadata = [''source'' \<mapsto> ''b.docx'']\<rparr>\<rparr> \<in> set r"
      "length r = length example_hits"
    by blast
  have "\<lparr>source = ''b.docx'', score = - 1 / 2, content = ''Java and Spring''\<rparr> \<in> set r"
    using r(2) by (simp add: metadata_source_def)
  moreover have "length r = 3" using r(3) by (simp add: example_hits_def)
  ultimately show ?thesis using r(1) by blast
qed

section \<open>Properties of text extraction\<close>

subsection \<open>Auxiliary facts\<close>

lemma extract_text_from_file_Inr:
  "\<exists>s. extract_text_from_file env file_path = Inr s"
  by (simp add: extract_text_from_file_def split: sum.split)

lemma metadata_source_filename [simp]:
  "metadata_source \<lparr>page_content = s, metadata = [''source'' \<mapsto> filename]\<rparr> = filename"
  by (simp add: metadata_source_def)

text \<open>
  The loop appends, in listing order, one document for every regular file whose extracted
  text is not empty.
\<close>

lemma collect_documents_eq:
  "collect_documents env folder_path filenames documents =
     Inr (documents @
          map (\<lambda>f. \<lparr>page_content = projr (extract_text_from_file env (path_join folder_path f)),
                      metadata = [''source'' \<mapsto> f]\<rparr>)
            (filter (\<lambda>f. isfile env (path_join folder_path f) \<and>
                          extract_text_from_file env (path_join folder_path f) \<noteq> Inr [])
               filenames))"
proof (induction filenames arbitrary: documents)
  case Nil
  show ?case by simp
next
  case (Cons filename rest)
  obtain s where t: "extract_text_from_file env (path_join folder_path filename) = Inr s"
    using extract_text_from_file_Inr by blast
  show ?case
    by (auto simp: Cons.IH t Let_def)
qed

lemma get_documents_eq:
  assumes "listdir env folder_path = Inr filenames"
  shows "get_documents_from_folder env folder_path =
     Inr (map (\<lambda>f. \<lparr>page_content = projr (extract_text_from_file env (path_join folder_path f)),
                      metadata = [''source'' \<mapsto> f]\<rparr>)
            (filter (\<lambda>f. isfile env (path_join folder_path f) \<and>
                          extract_text_from_file env (path_join folder_path f) \<noteq> Inr [])
               filenames))"
  using assms by (simp add: get_documents_from_folder_def collect_documents_eq)

lemma example_documents:
  "get_documents_from_folder example_env ''cv'' =
   Inr [\<lparr>page_content = ''Python Django'', metadata = [''source'' \<mapsto> ''a.pdf'']\<rparr>,
        \<lparr>page_content = ''Java'' @ [CHR 0x0A] @ ''Spring'',
           metadata = [''source'' \<mapsto> ''b.docx'']\<rparr>]"
  by (simp add: get_documents_from_folder_def example_env_def path_join_def
      extract_text_from_file_def extract_text_try_def endswith_def)

subsection \<open>Extraction does not raise\<close>

text \<open>
  Claim C9: \<open>extract_text_from_file\<close> returns a string for every file and never an
  exception. A file that is neither \<^verbatim>\<open>.pdf\<close> nor \<^verbatim>\<open>.docx\<close>, and a file whose
  parsing raises, give the empty string. When the folder can be listed,
  \<open>get_documents_from_folder\<close> returns documents for exactly the listed regular files with
  a non-empty extracted text, in listing order: a file that gave the empty string is left
  out, and the files after it are still processed.
\<close>

theorem extraction_never_raises:
  assumes "\<not> endswith unsupported ''.pdf''" and "\<not> endswith unsupported ''.docx''"
    and "extract_text_try env failing = Inl e"
    and "listdir env folder_path = Inr filenames"
  shows "(\<exists>s. extract_text_from_file env file_path = Inr s) \<and>
         extract_text_from_file env unsupported = Inr [] \<and>
         extract_text_from_file env failing = Inr [] \<and>
         (\<exists>docs. get_documents_from_folder env folder_path = Inr docs \<and>
            map metadata_source docs =
              filter (\<lambda>f. isfile env (path_join folder_path f) \<and>
                           extract_text_from_file env (path_join folder_path f) \<noteq> Inr [])
                filenames)"
proof -
  have a: "\<exists>s. extract_text_from_file env file_path = Inr s"
    by (rule extract_text_from_file_Inr)
  have b: "extract_text_from_file env unsupported = Inr []"
    using assms(1,2) by (simp add: extract_text_from_file_def extract_text_try_def)
  have c: "extract_text_from_file env failing = Inr []"
    using assms(3) by (simp add: extract_text_from_file_def)
  have d: "\<exists>docs. get_documents_from_folder env folder_path = Inr docs \<and>
            map metadata_source docs =
              filter (\<lambda>f. isfile env (path_join folder_path f) \<and>
                           extract_text_from_file env (path_join folder_path f) \<noteq> Inr [])
                filenames"
    by (simp add: get_documents_eq [OF assms(4)] comp_def)
  from a b c d show ?thesis by blast
qed

theorem extraction_never_raises_witness:
  "(\<exists>s. extract_text_from_file example_env ''cv/a.pdf'' = Inr s) \<and>
   extract_text_from_file example_env ''cv/n.txt'' = Inr [] \<and>
   extract_text_from_file example_env ''cv/x.pdf'' = Inr [] \<and>
   (\<exists>docs. get_documents_from_folder example_env ''cv'' = Inr docs \<and>
      map metadata_source docs = [''a.pdf'', ''b.docx''])"
proof -
  have h1: "\<not> endswith ''cv/n.txt'' ''.pdf''" by (simp add: endswith_def)
  have h2: "\<not> endswith ''cv/n.txt'' ''.docx''" by (simp add: endswith_def)
  have h3: "extract_text_try example_env ''cv/x.pdf'' = Inl (Exception ''cannot open'')"
    by (simp add: extract_text_try_def endswith_def example_env_def)
  have h4: "listdir example_env ''cv'' =
              Inr [''a.pdf'', ''n.txt'', ''x.pdf'', ''b.docx'', ''e.docx'', ''old'']"
    by (simp add: example_env_def)
  have f: "filter (\<lambda>f. isfile example_env (path_join ''cv'' f) \<and>
                       extract_text_from_file example_env (path_join ''cv'' f) \<noteq> Inr [])
             [''a.pdf'', ''n.txt'', ''x.pdf'', ''b.docx'', ''e.docx'', ''old''] =
           [''a.pdf'', ''b.docx'']"
    by (simp add: example_env_def path_join_def extract_text_from_file_def
        extract_text_try_def endswith_def)
  show ?thesis
    using extraction_never_raises [OF h1 h2 h3 h4, of "''cv/a.pdf''"]
    by (simp only: f)
qed

subsection \<open>Documents carry text\<close>

text \<open>
  Claim C10: every document in the list returned by \<open>get_documents_from_folder\<close> has a
  non-empty \<open>page_content\<close>. That list is what the program passes to
  \<open>create_vector_store\<close>.
\<close>

theorem documents_have_text:
  assumes "get_documents_from_folder env folder_path = Inr docs"
  shows "\<forall>d \<in> set docs. page_content d \<noteq> []"
proof (cases "listdir env folder_path")
  case (Inl e)
  with assms show ?thesis by (simp add: get_documents_from_folder_def)
next
  case (Inr filenames)
  have "docs =
          map (\<lambda>f. \<lparr>page_content = projr (extract_text_from_file env (path_join folder_path f)),
                      metadata = [''source'' \<mapsto> f]\<rparr>)
            (filter (\<lambda>f. isfile env (path_join folder_path f) \<and>
                          extract_text_from_file env (path_join folder_path f) \<noteq> Inr [])
               filenames)"
    using assms get_documents_eq [OF Inr] by simp
  moreover have "extract_text_from_file env p \<noteq> Inr [] \<Longrightarrow>
                 projr (extract_text_from_file env p) \<noteq> []" for p
    using extract_text_from_file_Inr [of env p] by auto
  ultimately show ?thesis by auto
qed

theorem documents_have_text_witness:
  "get_documents_from_folder example_env ''cv'' =
     Inr [\<lparr>page_content = ''Python Django'', metadata = [''source'' \<mapsto> ''a.pdf'']\<rparr>,
          \<lparr>page_content = ''Java'' @ [CHR 0x0A] @ ''Spring'',
             metadata = [''source'' \<mapsto> ''b.docx'']\<rparr>] \<and>
   page_content \<lparr>page_content = ''Python Django'', metadata = [''source'' \<mapsto> ''a.pdf'']\<rparr> \<noteq> [] \<and>
   page_content \<lparr>page_content = ''Java'' @ [CHR 0x0A] @ ''Spring'',
                  metadata = [''source'' \<mapsto> ''b.docx'']\<rparr> \<noteq> []"
  using documents_have_text [OF example_documents] example_documents
  by (simp only: list.set ball_simps simp_thms)

section \<open>Properties of the vector index of the specification\<close>

text \<open>
  Claim C6: on an index built from \<open>n\<close> entries, a query with \<open>k > n\<close> returns exactly
  \<open>n\<close> entries. The query is a total function, so it returns them without an error.
\<close>

theorem query_clamps_k:
  assumes "build entries = Inr index"
    and "length entries < k"
  shows "length (query distance index v k) = length entries"
proof -
  have "index = entries"
    using assms(1) by (simp add: build_def split: if_splits)
  with assms(2) show ?thesis
    by (simp add: query_def)
qed

theorem query_clamps_k_witness:
  "build example_entries = Inr example_entries \<and>
   query squared_l2 example_entries [0, 1] 5 =
     [(\<lparr>chunk = ''Java and Spring'', vector = [0, 1]\<rparr>, 0),
      (\<lparr>chunk = ''Python and Django'', vector = [1, 0]\<rparr>, 2)] \<and>
   length (query squared_l2 example_entries [0, 1] 5) = 2"
proof -
  have h1: "build example_entries = Inr example_entries"
    by (simp add: build_def example_entries_def)
  have h2: "length example_entries < 5" by (simp add: example_entries_def)
  have q: "query squared_l2 example_entries [0, 1] 5 =
     [(\<lparr>chunk = ''Java and Spring'', vector = [0, 1]\<rparr>, 0),
      (\<lparr>chunk = ''Python and Django'', vector = [1, 0]\<rparr>, 2)]"
    by (simp add: query_def example_entries_def squared_l2_def)
  have "length example_entries = 2" by (simp add: example_entries_def)
  with query_clamps_k [OF h1 h2, of squared_l2 "[0, 1]"] h1 q show ?thesis by simp
qed

end
